theory Spec2Isabelle
  imports Main
begin

section \<open>Python exceptions\<close>

text \<open>
  The exception classes that occur in \<^verbatim>\<open>dhtmonitor.py\<close> and
  \<^verbatim>\<open>mprofi_api_client/connector.py\<close>. \<open>HTTPError\<close> and \<open>URLError\<close> are the
  classes of \<^verbatim>\<open>urllib2\<close> and carry \<^verbatim>\<open>str(e.code)\<close> and \<^verbatim>\<open>str(e.reason)\<close>;
  \<open>HTTPException\<close> is the class of \<^verbatim>\<open>httplib\<close>. \<open>OtherException\<close> stands for any
  other subclass of \<^verbatim>\<open>Exception\<close> (\<^verbatim>\<open>socket.error\<close>, an MQTT error, ...).
  \<open>KeyboardInterrupt\<close> and \<open>SystemExit\<close> derive from \<^verbatim>\<open>BaseException\<close> only.
\<close>

datatype exn =
    HTTPError string
  | URLError string
  | HTTPException
  | TypeError
  | ValueError
  | KeyError
  | NameError string
  | RuntimeError
  | OtherException string
  | KeyboardInterrupt
  | SystemExit
  | MprofiConnectionError
  | MprofiAuthError

text \<open>\<^verbatim>\<open>isinstance(e, urllib2.HTTPError)\<close>\<close>

fun is_HTTPError :: "exn \<Rightarrow> bool" where
  "is_HTTPError (HTTPError c) = True"
| "is_HTTPError e = False"

text \<open>\<^verbatim>\<open>isinstance(e, urllib2.URLError)\<close>: \<^verbatim>\<open>HTTPError\<close> is a subclass of \<^verbatim>\<open>URLError\<close>.\<close>

fun is_URLError :: "exn \<Rightarrow> bool" where
  "is_URLError (HTTPError c) = True"
| "is_URLError (URLError r) = True"
| "is_URLError e = False"

text \<open>\<^verbatim>\<open>isinstance(e, httplib.HTTPException)\<close>\<close>

fun is_HTTPException :: "exn \<Rightarrow> bool" where
  "is_HTTPException HTTPException = True"
| "is_HTTPException e = False"

text \<open>\<^verbatim>\<open>isinstance(e, Exception)\<close>\<close>

fun is_Exception :: "exn \<Rightarrow> bool" where
  "is_Exception KeyboardInterrupt = False"
| "is_Exception SystemExit = False"
| "is_Exception e = True"

fun str_code :: "exn \<Rightarrow> string" where
  "str_code (HTTPError c) = c"
| "str_code e = []"

fun str_reason :: "exn \<Rightarrow> string" where
  "str_reason (URLError r) = r"
| "str_reason e = []"


section \<open>The sensor loop of \<^verbatim>\<open>dhtmonitor.py\<close>\<close>

subsection \<open>What the program sees of the outside\<close>

text \<open>
  A message of \<^verbatim>\<open>paho.mqtt.publish.multiple\<close> is the tuple
  \<^verbatim>\<open>(topic, payload, qos, retain)\<close>.
\<close>

type_synonym mqtt_msg = "string \<times> string \<times> nat \<times> bool"

fun msg_topic :: "mqtt_msg \<Rightarrow> string" where
  "msg_topic (t, p, q, r) = t"

fun msg_payload :: "mqtt_msg \<Rightarrow> string" where
  "msg_payload (t, p, q, r) = p"

fun msg_qos :: "mqtt_msg \<Rightarrow> nat" where
  "msg_qos (t, p, q, r) = q"

fun msg_retain :: "mqtt_msg \<Rightarrow> bool" where
  "msg_retain (t, p, q, r) = r"

text \<open>The arguments of one call of \<^verbatim>\<open>publish.multiple\<close>; \<open>will\<close> is \<^verbatim>\<open>None\<close> or a message.\<close>

record publish_call =
  msgs :: "mqtt_msg list"
  hostname :: string
  port :: nat
  client_id :: string
  keepalive :: nat
  will :: "mqtt_msg option"
  auth_username :: string
  auth_password :: string

text \<open>
  The names the program takes from outside its own file. The module
  \<^verbatim>\<open>dhtmonitor_conf\<close> is not part of the sources at hand, so everything that
  \<^verbatim>\<open>from dhtmonitor_conf import *\<close> may bind is a parameter: the five constants, and
  whether it binds the names \<^verbatim>\<open>checksLogger\<close> and \<^verbatim>\<open>httplib\<close>, which
  \<^verbatim>\<open>dhtmonitor.py\<close> uses and neither defines nor imports itself.
  \<open>str_round1\<close> is \<^verbatim>\<open>lambda x: str(round(x, 1))\<close> on the numbers \<open>'f\<close> the sensor
  library returns, and \<open>format_exc\<close> is \<^verbatim>\<open>traceback.format_exc()\<close> while the given
  exception is being handled.
\<close>

record 'f env =
  str_round1 :: "'f \<Rightarrow> string"
  format_exc :: "exn \<Rightarrow> string"
  thingspeak_baseURL :: string
  mqtt_server :: string
  mqtt_port :: nat
  mqtt_uname :: string
  mqtt_pw :: string
  checksLogger_bound :: bool
  httplib_bound :: bool

text \<open>
  The outside during one cycle: what \<^verbatim>\<open>Adafruit_DHT.read_retry(DHT22, pin)\<close> gives
  for each pin (a pair of numbers, the pair \<^verbatim>\<open>(None, None)\<close> once its retries are
  exhausted, or an exception of its own), whether \<^verbatim>\<open>urllib2.urlopen\<close> raises on
  a URL, and whether \<^verbatim>\<open>publish.multiple\<close> raises on a call. \<^verbatim>\<open>f.close()\<close>,
  \<^verbatim>\<open>sleep\<close>, \<^verbatim>\<open>print\<close> and a bound \<^verbatim>\<open>checksLogger.error\<close> are taken to return.
\<close>

record 'f world =
  read_retry :: "nat \<Rightarrow> exn + ('f option \<times> 'f option)"
  urlopen :: "string \<Rightarrow> exn option"
  publish_multiple :: "publish_call \<Rightarrow> exn option"

text \<open>The observable actions of the program, in the order it performs them.\<close>

datatype event =
    SensorRead nat
  | UrlOpen string
  | UrlClose
  | Publish publish_call
  | LogError string
  | Sleep nat
  | PrintError exn
  | PrintStarting

subsection \<open>Statements that may raise\<close>

text \<open>
  A statement gives the exception it raised (\<open>Inl\<close>) or its value (\<open>Inr\<close>), and the
  actions it performed before that.
\<close>

type_synonym 'a res = "(exn + 'a) \<times> event list"

definition ret :: "'a \<Rightarrow> 'a res" where
  "ret x = (Inr x, [])"

definition raise :: "exn \<Rightarrow> 'a res" where
  "raise e = (Inl e, [])"

definition emit :: "event \<Rightarrow> unit res" where
  "emit ev = (Inr (), [ev])"

text \<open>Sequencing: the second statement runs only when the first did not raise.\<close>

definition andthen :: "'a res \<Rightarrow> ('a \<Rightarrow> 'b res) \<Rightarrow> 'b res" where
  "andthen m f =
     (case m of
        (Inl e, tr) \<Rightarrow> (Inl e, tr)
      | (Inr a, tr) \<Rightarrow> (case f a of (r, tr') \<Rightarrow> (r, tr @ tr')))"

text \<open>
  \<^verbatim>\<open>try: m  except ...: h\<close>, where \<open>h e\<close> is the whole chain of except clauses
  applied to the exception \<open>e\<close>: it handles \<open>e\<close>, or raises (\<open>e\<close> again when no clause
  matches, something else when a clause or handler fails).
\<close>

definition try_except :: "'a res \<Rightarrow> (exn \<Rightarrow> 'a res) \<Rightarrow> 'a res" where
  "try_except m h =
     (case m of
        (Inr a, tr) \<Rightarrow> (Inr a, tr)
      | (Inl e, tr) \<Rightarrow> (case h e of (r, tr') \<Rightarrow> (r, tr @ tr')))"

subsection \<open>\<^verbatim>\<open>getSensorData\<close>\<close>

text \<open>
  \<^verbatim>\<open>RH, T = Adafruit_DHT.read_retry(Adafruit_DHT.DHT22, pin)\<close>
  \<^verbatim>\<open>return (str(round(RH,1)), str(round(T,1)))\<close>
  \<^verbatim>\<open>round(None, 1)\<close> raises \<^verbatim>\<open>TypeError\<close>.
\<close>

definition getSensorData :: "'f env \<Rightarrow> 'f world \<Rightarrow> nat \<Rightarrow> (string \<times> string) res" where
  "getSensorData env w pin =
     andthen (emit (SensorRead pin)) (\<lambda>_.
       case read_retry w pin of
         Inl e \<Rightarrow> raise e
       | Inr (rh, t) \<Rightarrow>
           (case rh of
              None \<Rightarrow> raise TypeError
            | Some rhv \<Rightarrow>
                (case t of
                   None \<Rightarrow> raise TypeError
                 | Some tv \<Rightarrow> ret (str_round1 env rhv, str_round1 env tv))))"

subsection \<open>One cycle of \<^verbatim>\<open>main\<close>\<close>

text \<open>The eight local variables that the four calls of \<^verbatim>\<open>getSensorData\<close> assign.\<close>

record batch =
  RH :: string
  T :: string
  RH2 :: string
  T2 :: string
  RH3 :: string
  T3 :: string
  RH4 :: string
  T4 :: string

text \<open>Lines 21 to 24: pins 2, 3, 4 and 17, one after the other.\<close>

definition acquire :: "'f env \<Rightarrow> 'f world \<Rightarrow> batch res" where
  "acquire env w =
     andthen (getSensorData env w 2) (\<lambda>(rh, t).
     andthen (getSensorData env w 3) (\<lambda>(rh2, t2).
     andthen (getSensorData env w 4) (\<lambda>(rh3, t3).
     andthen (getSensorData env w 17) (\<lambda>(rh4, t4).
       ret \<lparr>RH = rh, T = t, RH2 = rh2, T2 = t2, RH3 = rh3, T3 = t3, RH4 = rh4, T4 = t4\<rparr>))))"

text \<open>
  The argument of \<^verbatim>\<open>urllib2.urlopen\<close>: \<^verbatim>\<open>%\<close> binds tighter than \<^verbatim>\<open>+\<close>, so the eight
  values are put into the literal, in the order
  \<^verbatim>\<open>(T, RH, T2, RH2, T3, RH3, T4, RH4)\<close>, and the result is appended to the base URL.
\<close>

definition thingspeak_url :: "'f env \<Rightarrow> batch \<Rightarrow> string" where
  "thingspeak_url env b =
     thingspeak_baseURL env @
       ''&field1='' @ T b @ ''&field2='' @ RH b @
       ''&field3='' @ T2 b @ ''&field4='' @ RH2 b @
       ''&field5='' @ T3 b @ ''&field6='' @ RH3 b @
       ''&field7='' @ T4 b @ ''&field8='' @ RH4 b"

text \<open>The list \<^verbatim>\<open>msgs\<close> of lines 29 to 35.\<close>

definition mqtt_msgs :: "batch \<Rightarrow> mqtt_msg list" where
  "mqtt_msgs b =
     [(''/temperature/garden'', T b, 0, True),
      (''/temperature/taras'', T2 b, 0, True),
      (''/hummidity/taras'', RH2 b, 0, True),
      (''/temperature/loundry'', T3 b, 0, True),
      (''/hummidity/loundry'', RH3 b, 0, True),
      (''/temperature/front'', T4 b, 0, True)]"

text \<open>The call of line 36.\<close>

definition mqtt_publish :: "'f env \<Rightarrow> batch \<Rightarrow> publish_call" where
  "mqtt_publish env b =
     \<lparr>msgs = mqtt_msgs b, hostname = mqtt_server env, port = mqtt_port env,
      client_id = [], keepalive = 60, will = None,
      auth_username = mqtt_uname env, auth_password = mqtt_pw env\<rparr>"

text \<open>The body of the inner \<^verbatim>\<open>try\<close>, lines 26 to 36.\<close>

definition deliver :: "'f env \<Rightarrow> 'f world \<Rightarrow> batch \<Rightarrow> unit res" where
  "deliver env w b =
     andthen (emit (UrlOpen (thingspeak_url env b))) (\<lambda>_.
       case urlopen w (thingspeak_url env b) of
         Some e \<Rightarrow> raise e
       | None \<Rightarrow>
           andthen (emit UrlClose) (\<lambda>_.
           andthen (emit (Publish (mqtt_publish env b))) (\<lambda>_.
             case publish_multiple w (mqtt_publish env b) of
               Some e \<Rightarrow> raise e
             | None \<Rightarrow> ret ())))"

text \<open>\<^verbatim>\<open>checksLogger.error(s)\<close>: a \<^verbatim>\<open>NameError\<close> when the name is not bound.\<close>

definition checksLogger_error :: "'f env \<Rightarrow> string \<Rightarrow> unit res" where
  "checksLogger_error env s =
     (if checksLogger_bound env then emit (LogError s)
      else raise (NameError ''checksLogger''))"

text \<open>
  The except clauses of lines 37 to 45. Python evaluates the class expression of each
  clause in turn, so the third clause raises \<^verbatim>\<open>NameError\<close> when \<^verbatim>\<open>httplib\<close> is not
  bound and neither of the first two clauses matched.
\<close>

definition handle_delivery :: "'f env \<Rightarrow> exn \<Rightarrow> unit res" where
  "handle_delivery env e =
     (if is_HTTPError e then checksLogger_error env (''HTTPError = '' @ str_code e)
      else if is_URLError e then checksLogger_error env (''URLError = '' @ str_reason e)
      else if \<not> httplib_bound env then raise (NameError ''httplib'')
      else if is_HTTPException e then checksLogger_error env ''HTTPException''
      else if is_Exception e
        then checksLogger_error env (''generic exception: '' @ format_exc env e)
      else raise e)"

text \<open>The body of the outer \<^verbatim>\<open>try\<close>, lines 21 to 46.\<close>

definition cycle_body :: "'f env \<Rightarrow> 'f world \<Rightarrow> unit res" where
  "cycle_body env w =
     andthen (acquire env w) (\<lambda>b.
     andthen (try_except (deliver env w b) (handle_delivery env)) (\<lambda>_.
       emit (Sleep 600)))"

text \<open>
  One iteration of \<^verbatim>\<open>while True\<close>: the outer \<^verbatim>\<open>try\<close> with its bare \<^verbatim>\<open>except:\<close>, which
  matches every exception and prints it.
\<close>

definition iteration :: "'f env \<Rightarrow> 'f world \<Rightarrow> unit res" where
  "iteration env w = try_except (cycle_body env w) (\<lambda>e. emit (PrintError e))"

text \<open>
  \<^verbatim>\<open>while True\<close>, observed for as many iterations as there are worlds in the list: the
  k-th iteration runs against the k-th world. The loop has no \<^verbatim>\<open>break\<close> and no
  \<^verbatim>\<open>return\<close>; in the model it would stop early only with \<open>Inl e\<close>, when an iteration
  lets the exception \<open>e\<close> escape. \<open>Inr ()\<close> means that the observation ended with the loop
  still running.
\<close>

fun main_loop :: "'f env \<Rightarrow> 'f world list \<Rightarrow> unit res" where
  "main_loop env [] = ret ()"
| "main_loop env (w # ws) = andthen (iteration env w) (\<lambda>_. main_loop env ws)"

definition main :: "'f env \<Rightarrow> 'f world list \<Rightarrow> unit res" where
  "main env ws = andthen (emit PrintStarting) (\<lambda>_. main_loop env ws)"


subsection \<open>Reading a trace\<close>

text \<open>
  The calls of \<^verbatim>\<open>publish.multiple\<close>, the URLs given to \<^verbatim>\<open>urlopen\<close> and the arguments
  of \<^verbatim>\<open>sleep\<close> that a trace contains, in order.
\<close>

fun publish_calls :: "event list \<Rightarrow> publish_call list" where
  "publish_calls [] = []"
| "publish_calls (Publish p # evs) = p # publish_calls evs"
| "publish_calls (ev # evs) = publish_calls evs"

fun url_requests :: "event list \<Rightarrow> string list" where
  "url_requests [] = []"
| "url_requests (UrlOpen u # evs) = u # url_requests evs"
| "url_requests (ev # evs) = url_requests evs"

fun sleeps :: "event list \<Rightarrow> nat list" where
  "sleeps [] = []"
| "sleeps (Sleep n # evs) = n # sleeps evs"
| "sleeps (ev # evs) = sleeps evs"


section \<open>\<^verbatim>\<open>MprofiAPIConnector\<close> of \<^verbatim>\<open>mprofi_api_client/connector.py\<close>\<close>

subsection \<open>Python values and objects\<close>

text \<open>
  A decoded JSON body, and the values stored in a message. A JSON object is the list of
  its members in the order of the text; as in Python's decoder the last member wins
  where a key is repeated. Floating-point numbers are left out: in every branch of
  \<^verbatim>\<open>send\<close> they behave as \<open>PyInt\<close> does.
\<close>

datatype pyval =
    PyNone
  | PyBool bool
  | PyInt int
  | PyStr string
  | PyList "pyval list"
  | PyDict "(string \<times> pyval) list"

text \<open>
  A Python \<^verbatim>\<open>dict\<close>. The messages that \<^verbatim>\<open>add_message\<close> builds and the objects of a JSON
  body have string keys; a key of another kind can only come from \<^verbatim>\<open>dict.update\<close> reading
  a sequence of pairs (see \<open>update_seq\<close> below).
\<close>

type_synonym pydict = "pyval \<rightharpoonup> pyval"

definition dict_of :: "(string \<times> pyval) list \<Rightarrow> pydict" where
  "dict_of kvs = map_of (rev (map (\<lambda>kv. (PyStr (fst kv), snd kv)) kvs))"

text \<open>
  What the source leaves to Python's built-in types, where it depends on more than the JSON
  text. \<open>keys_order\<close> is the order in which iterating a \<^verbatim>\<open>dict\<close> gives its keys (each key
  once, in the order of the hash table). \<open>update_seq d x\<close> is \<^verbatim>\<open>d.update(x)\<close> for an \<^verbatim>\<open>x\<close>
  that is not a \<^verbatim>\<open>dict\<close>: Python reads \<^verbatim>\<open>x\<close> as a sequence of key and value pairs, so that
  the call succeeds, or raises \<^verbatim>\<open>TypeError\<close> or \<^verbatim>\<open>ValueError\<close> after the pairs before the
  faulty one have been stored. The result is the exception, if any, and the dictionary as the
  call leaves it. Both are parameters of the model.
\<close>

record python =
  keys_order :: "(string \<times> pyval) list \<Rightarrow> string list"
  update_seq :: "pydict \<Rightarrow> pyval \<Rightarrow> exn option \<times> pydict"

text \<open>
  The connector. Its messages are \<^verbatim>\<open>dict\<close> objects, which \<^verbatim>\<open>send\<close> updates in place
  while several names refer to them, so they live in a heap and the lists
  \<^verbatim>\<open>self.payload\<close> and \<^verbatim>\<open>self.response\<close> hold their addresses. \<open>next_addr\<close> is the
  first address not in use. \<^verbatim>\<open>self.token\<close> and \<^verbatim>\<open>self.session\<close> only set the
  \<^verbatim>\<open>Authorization\<close> header of the requests and are not represented.
\<close>

record connector =
  heap :: "nat \<Rightarrow> pydict"
  next_addr :: nat
  payload :: "nat list"
  response :: "nat list"

text \<open>\<^verbatim>\<open>MprofiAPIConnector(api_token=...)\<close>, without an initial payload.\<close>

definition new_connector :: connector where
  "new_connector = \<lparr>heap = (\<lambda>a. Map.empty), next_addr = 0, payload = [], response = []\<rparr>"

text \<open>The messages a list of addresses refers to.\<close>

definition deref :: "connector \<Rightarrow> nat list \<Rightarrow> pydict list" where
  "deref c as = map (heap c) as"

subsection \<open>\<^verbatim>\<open>add_message\<close>\<close>

definition add_message :: "connector \<Rightarrow> string \<Rightarrow> string \<Rightarrow> (exn + unit) \<times> connector" where
  "add_message c recipient message =
     (if recipient = [] then (Inl ValueError, c)
      else if message = [] then (Inl ValueError, c)
      else (Inr (),
            c\<lparr>heap := (heap c)(next_addr c :=
                   [PyStr ''recipient'' \<mapsto> PyStr recipient,
                    PyStr ''message'' \<mapsto> PyStr message]),
              next_addr := Suc (next_addr c),
              payload := payload c @ [next_addr c]\<rparr>))"

subsection \<open>The HTTP exchange\<close>

text \<open>
  The \<^verbatim>\<open>data\<close> argument of \<^verbatim>\<open>session.post\<close>: the single message itself, or the
  dictionary \<^verbatim>\<open>{'messages': self.payload}\<close> with its optional \<^verbatim>\<open>'reference'\<close>.
\<close>

datatype form =
    Form_single pydict
  | Form_bulk "pydict list" "string option"

text \<open>
  What \<^verbatim>\<open>self.session.post\<close> does: it raises \<^verbatim>\<open>ConnectionError\<close>, it raises another
  exception (which \<^verbatim>\<open>send\<close> does not catch), or it returns a response with a status
  code and a body; the body is \<open>None\<close> when \<^verbatim>\<open>response.json()\<close> raises
  \<^verbatim>\<open>JSONDecodeError\<close>.
\<close>

datatype http_result =
    ConnectionError
  | RequestError exn
  | Response nat "pyval option"

type_synonym request = "string \<times> form"

text \<open>
  Modelled from the spec: \<^verbatim>\<open>Response.raise_for_status\<close> of the vendored package
  \<^verbatim>\<open>mprofi_api_client/packages/requests\<close>, which is not among the sources at hand. The
  spec describes the client as one that will "raise on non-2xx"; the function is true
  when \<^verbatim>\<open>HTTPError\<close> is raised.
\<close>

definition raise_for_status :: "nat \<Rightarrow> bool" where
  "raise_for_status code = (\<not> (200 \<le> code \<and> code < 300))"

subsection \<open>\<^verbatim>\<open>send\<close>\<close>

definition url_base :: string where
  "url_base = ''https://api.mprofi.pl''"

definition api_version :: string where
  "api_version = ''1.0''"

definition send_endpoint :: string where
  "send_endpoint = ''send''"

definition sendbulk_endpoint :: string where
  "sendbulk_endpoint = ''sendbulk''"

text \<open>\<^verbatim>\<open>sep.join(xs)\<close>\<close>

fun str_join :: "string \<Rightarrow> string list \<Rightarrow> string" where
  "str_join sep [] = []"
| "str_join sep [x] = x"
| "str_join sep (x # y # ys) = x @ sep @ str_join sep (y # ys)"

definition full_url :: "string \<Rightarrow> string" where
  "full_url used_endpoint = str_join ''/'' [url_base, api_version, used_endpoint, []]"

text \<open>\<^verbatim>\<open>r[key]\<close> on a decoded body: \<^verbatim>\<open>KeyError\<close> on an object without the key,
  \<^verbatim>\<open>TypeError\<close> on a body that is not an object.\<close>

definition subscript :: "pyval \<Rightarrow> string \<Rightarrow> exn + pyval" where
  "subscript r key =
     (case r of
        PyDict kvs \<Rightarrow>
          (case dict_of kvs (PyStr key) of None \<Rightarrow> Inl KeyError | Some v \<Rightarrow> Inr v)
      | _ \<Rightarrow> Inl TypeError)"

text \<open>
  The two \<^verbatim>\<open>extract_from_response\<close> functions, followed by the iteration that \<^verbatim>\<open>zip\<close>
  makes over their result: \<^verbatim>\<open>lambda r: [{'id': r['id']}]\<close> and
  \<^verbatim>\<open>lambda r: r['result']\<close>. Iterating a list gives its elements, an object its keys, a
  string its characters; anything else raises \<^verbatim>\<open>TypeError\<close>.
\<close>

definition extract_single :: "pyval \<Rightarrow> exn + pyval list" where
  "extract_single r =
     (case subscript r ''id'' of
        Inl e \<Rightarrow> Inl e
      | Inr v \<Rightarrow> Inr [PyDict [(''id'', v)]])"

definition extract_bulk :: "python \<Rightarrow> pyval \<Rightarrow> exn + pyval list" where
  "extract_bulk py r =
     (case subscript r ''result'' of
        Inl e \<Rightarrow> Inl e
      | Inr (PyList items) \<Rightarrow> Inr items
      | Inr (PyDict kvs) \<Rightarrow> Inr (map PyStr (keys_order py kvs))
      | Inr (PyStr s) \<Rightarrow> Inr (map (\<lambda>ch. PyStr [ch]) s)
      | Inr _ \<Rightarrow> Inl TypeError)"

text \<open>
  The loop \<^verbatim>\<open>for sent_message, response_message in zip(...): sent_message.update(response_message)\<close>.
  An object updates the message with its members; any other item is given to \<open>update_seq\<close>.
  When an update raises, the loop ends there: the messages updated before stay updated, and
  the failing message is as the failed call left it.
\<close>

fun update_all ::
  "python \<Rightarrow> (nat \<Rightarrow> pydict) \<Rightarrow> (nat \<times> pyval) list \<Rightarrow> exn option \<times> (nat \<Rightarrow> pydict)" where
  "update_all py h [] = (None, h)"
| "update_all py h ((a, PyDict kvs) # rest) =
     update_all py (h(a := h a ++ dict_of kvs)) rest"
| "update_all py h ((a, item) # rest) =
     (case update_seq py (h a) item of
        (None, d) \<Rightarrow> update_all py (h(a := d)) rest
      | (Some e, d) \<Rightarrow> (Some e, h(a := d)))"

text \<open>
  Lines 181 to 222: the request and what follows it. The result is the value returned
  or the exception raised, the connector afterwards, and the requests issued.
\<close>

definition transmit ::
  "python \<Rightarrow> (string \<Rightarrow> form \<Rightarrow> http_result) \<Rightarrow> connector \<Rightarrow> string \<Rightarrow> form \<Rightarrow>
   (pyval \<Rightarrow> exn + pyval list) \<Rightarrow> (exn + pyval) \<times> connector \<times> request list" where
  "transmit py post c used_endpoint full_payload extract_from_response =
     (case post (full_url used_endpoint) full_payload of
        ConnectionError \<Rightarrow>
          (Inl MprofiConnectionError, c, [(full_url used_endpoint, full_payload)])
      | RequestError e \<Rightarrow> (Inl e, c, [(full_url used_endpoint, full_payload)])
      | Response code body \<Rightarrow>
          if raise_for_status code
          then (Inl MprofiAuthError, c, [(full_url used_endpoint, full_payload)])
          else
            (case body of
               None \<Rightarrow>
                 (Inl MprofiConnectionError, c, [(full_url used_endpoint, full_payload)])
             | Some response_json \<Rightarrow>
                 (let c' = c\<lparr>payload := [], response := payload c\<rparr> in
                  case extract_from_response response_json of
                    Inl e \<Rightarrow> (Inl e, c', [(full_url used_endpoint, full_payload)])
                  | Inr items \<Rightarrow>
                      (case update_all py (heap c') (zip (response c') items) of
                         (Some e, h) \<Rightarrow>
                           (Inl e, c'\<lparr>heap := h\<rparr>, [(full_url used_endpoint, full_payload)])
                       | (None, h) \<Rightarrow>
                           (Inr response_json, c'\<lparr>heap := h\<rparr>,
                            [(full_url used_endpoint, full_payload)])))))"

text \<open>
  Lines 158 to 179. With one message, \<^verbatim>\<open>full_payload\<close> is the very object
  \<^verbatim>\<open>self.payload[0]\<close>, so \<^verbatim>\<open>full_payload.update({'reference': reference})\<close> writes into
  the stored message. With several messages \<^verbatim>\<open>full_payload\<close> is a new dictionary.
\<close>

definition send ::
  "python \<Rightarrow> (string \<Rightarrow> form \<Rightarrow> http_result) \<Rightarrow> connector \<Rightarrow> string option \<Rightarrow>
   (exn + pyval) \<times> connector \<times> request list" where
  "send py post c reference =
     (if length (payload c) = 1 then
        (let a = hd (payload c);
             c1 = (case reference of
                     None \<Rightarrow> c
                   | Some r \<Rightarrow>
                       c\<lparr>heap := (heap c)(a := (heap c a)(PyStr ''reference'' \<mapsto> PyStr r))\<rparr>)
         in transmit py post c1 send_endpoint (Form_single (heap c1 a)) extract_single)
      else if length (payload c) > 1 then
        transmit py post c sendbulk_endpoint (Form_bulk (deref c (payload c)) reference)
          (extract_bulk py)
      else (Inl ValueError, c, []))"


section \<open>Concrete runs\<close>

text \<open>
  A configuration and four worlds for \<^verbatim>\<open>dhtmonitor.py\<close>. The sensor's numbers are stood
  for by the text that \<^verbatim>\<open>str(round(x, 1))\<close> gives for them. In \<open>env0\<close> the
  configuration module binds \<^verbatim>\<open>checksLogger\<close> and \<^verbatim>\<open>httplib\<close>; in \<open>env_bare\<close> it
  binds the five constants only.
\<close>

definition env0 :: "string env" where
  "env0 =
     \<lparr>str_round1 = (\<lambda>s. s), format_exc = (\<lambda>e. ''Traceback (most recent call last): ...''),
      thingspeak_baseURL = ''https://api.thingspeak.com/update?api_key=K'',
      mqtt_server = ''broker.local'', mqtt_port = 1883,
      mqtt_uname = ''pi'', mqtt_pw = ''secret'',
      checksLogger_bound = True, httplib_bound = True\<rparr>"


definition reads_ok :: "nat \<Rightarrow> exn + (string option \<times> string option)" where
  "reads_ok pin =
     (if pin = 2 then Inr (Some ''61.3'', Some ''22.5'')
      else if pin = 3 then Inr (Some ''55.5'', Some ''19.0'')
      else if pin = 4 then Inr (Some ''48.0'', Some ''20.1'')
      else Inr (Some ''70.2'', Some ''17.8''))"

text \<open>All four reads succeed and both sinks accept.\<close>

definition w_ok :: "string world" where
  "w_ok = \<lparr>read_retry = reads_ok, urlopen = (\<lambda>u. None), publish_multiple = (\<lambda>p. None)\<rparr>"

text \<open>The sensor on pin 4 gives \<^verbatim>\<open>(None, None)\<close>: its retries are exhausted.\<close>

definition w_pin4_fails :: "string world" where
  "w_pin4_fails = w_ok\<lparr>read_retry := reads_ok(4 := Inr (None, None))\<rparr>"

text \<open>The logging endpoint refuses the connection.\<close>

definition w_log_fails :: "string world" where
  "w_log_fails = w_ok\<lparr>urlopen := (\<lambda>u. Some (URLError ''[Errno 111] Connection refused''))\<rparr>"

text \<open>The broker cannot be reached.\<close>

definition w_broker_fails :: "string world" where
  "w_broker_fails =
     w_ok\<lparr>publish_multiple := (\<lambda>p. Some (OtherException ''socket.error''))\<rparr>"

definition batch0 :: batch where
  "batch0 = \<lparr>RH = ''61.3'', T = ''22.5'', RH2 = ''55.5'', T2 = ''19.0'',
             RH3 = ''48.0'', T3 = ''20.1'', RH4 = ''70.2'', T4 = ''17.8''\<rparr>"

text \<open>
  The connector as \<^verbatim>\<open>motiondetect.py\<close> builds it: a new connector and one
  \<^verbatim>\<open>add_message\<close>. \<open>conn2\<close> has a second message.
\<close>

definition conn1 :: connector where
  "conn1 = snd (add_message new_connector ''111222333'' ''Welcome!'')"

definition conn2 :: connector where
  "conn2 = snd (add_message conn1 ''444555666'' ''Hello!'')"

text \<open>
  In the runs below no response holds an item that is not an object, so neither parameter of
  \<open>python\<close> is ever applied. \<open>py0\<close> only fills the place in those runs: it is not a
  description of Python.
\<close>

definition py0 :: python where
  "py0 = \<lparr>keys_order = map fst, update_seq = (\<lambda>d x. (Some TypeError, d))\<rparr>"

text \<open>A network that cannot be reached, and APIs that answer.\<close>

definition post_unreachable :: "string \<Rightarrow> form \<Rightarrow> http_result" where
  "post_unreachable u d = ConnectionError"

definition post_single_ok :: "string \<Rightarrow> form \<Rightarrow> http_result" where
  "post_single_ok u d = Response 200 (Some (PyDict [(''id'', PyInt 1)]))"

definition post_bulk_ok :: "string \<Rightarrow> form \<Rightarrow> http_result" where
  "post_bulk_ok u d =
     Response 200 (Some (PyDict [(''result'',
       PyList [PyDict [(''id'', PyInt 2)], PyDict [(''id'', PyInt 3)]])]))"


section \<open>Properties of the sensor loop\<close>

subsection \<open>Sequencing and traces\<close>

lemma andthen_ret [simp]: "andthen (ret x) f = f x"
  by (simp add: andthen_def ret_def split: prod.splits)

lemma andthen_raise [simp]: "andthen (raise e) f = raise e"
  by (simp add: andthen_def raise_def)

lemma andthen_emit [simp]: "andthen (emit ev) f = (fst (f ()), ev # snd (f ()))"
  by (simp add: andthen_def emit_def split: prod.splits)

lemma andthen_Inl [simp]: "andthen (Inl e, tr) f = (Inl e, tr)"
  by (simp add: andthen_def)

lemma andthen_Inr [simp]: "andthen (Inr a, tr) f = (fst (f a), tr @ snd (f a))"
  by (simp add: andthen_def split: prod.splits)

lemma try_except_Inr [simp]: "try_except (Inr a, tr) h = (Inr a, tr)"
  by (simp add: try_except_def)

lemma try_except_Inl [simp]: "try_except (Inl e, tr) h = (fst (h e), tr @ snd (h e))"
  by (simp add: try_except_def split: prod.splits)

lemma fst_ret [simp]: "fst (ret x) = Inr x"
  by (simp add: ret_def)

lemma snd_ret [simp]: "snd (ret x) = []"
  by (simp add: ret_def)

lemma fst_raise [simp]: "fst (raise e) = Inl e"
  by (simp add: raise_def)

lemma snd_raise [simp]: "snd (raise e) = []"
  by (simp add: raise_def)

lemma fst_emit [simp]: "fst (emit ev) = Inr ()"
  by (simp add: emit_def)

lemma snd_emit [simp]: "snd (emit ev) = [ev]"
  by (simp add: emit_def)

lemma publish_calls_append [simp]:
  "publish_calls (xs @ ys) = publish_calls xs @ publish_calls ys"
  by (induction xs rule: publish_calls.induct) simp_all

lemma url_requests_append [simp]:
  "url_requests (xs @ ys) = url_requests xs @ url_requests ys"
  by (induction xs rule: url_requests.induct) simp_all

lemma sleeps_append [simp]: "sleeps (xs @ ys) = sleeps xs @ sleeps ys"
  by (induction xs rule: sleeps.induct) simp_all

lemma getSensorData_cases:
  "(\<exists>rh t. read_retry w pin = Inr (Some rh, Some t) \<and>
      getSensorData env w pin = (Inr (str_round1 env rh, str_round1 env t), [SensorRead pin])) \<or>
   (\<exists>e. getSensorData env w pin = (Inl e, [SensorRead pin]))"
  by (simp add: getSensorData_def split: sum.splits prod.splits option.splits)

lemma acquire_shape:
  "(\<exists>b. acquire env w = (Inr b, [SensorRead 2, SensorRead 3, SensorRead 4, SensorRead 17])) \<or>
   (\<exists>e. acquire env w = (Inl e, [SensorRead 2]) \<or>
        acquire env w = (Inl e, [SensorRead 2, SensorRead 3]) \<or>
        acquire env w = (Inl e, [SensorRead 2, SensorRead 3, SensorRead 4]) \<or>
        acquire env w = (Inl e, [SensorRead 2, SensorRead 3, SensorRead 4, SensorRead 17]))"
  using getSensorData_cases [of w 2 env] getSensorData_cases [of w 3 env]
    getSensorData_cases [of w 4 env] getSensorData_cases [of w 17 env]
  by (auto simp add: acquire_def)

lemma acquire_trace_reads:
  "publish_calls (snd (acquire env w)) = [] \<and> url_requests (snd (acquire env w)) = [] \<and>
   sleeps (snd (acquire env w)) = []"
  using acquire_shape [of env w] by auto

lemma acquire_ok:
  assumes "read_retry w 2 = Inr (Some h1, Some t1)"
    and "read_retry w 3 = Inr (Some h2, Some t2)"
    and "read_retry w 4 = Inr (Some h3, Some t3)"
    and "read_retry w 17 = Inr (Some h4, Some t4)"
  shows "acquire env w =
    (Inr \<lparr>RH = str_round1 env h1, T = str_round1 env t1,
          RH2 = str_round1 env h2, T2 = str_round1 env t2,
          RH3 = str_round1 env h3, T3 = str_round1 env t3,
          RH4 = str_round1 env h4, T4 = str_round1 env t4\<rparr>,
     [SensorRead 2, SensorRead 3, SensorRead 4, SensorRead 17])"
  using assms by (simp add: acquire_def getSensorData_def)

lemma acquire_depends_on_reads:
  "read_retry w1 = read_retry w2 \<Longrightarrow> acquire env w1 = acquire env w2"
  by (simp add: acquire_def getSensorData_def)

lemma deliver_shape:
  "deliver env w b =
     (case urlopen w (thingspeak_url env b) of
        Some e \<Rightarrow> (Inl e, [UrlOpen (thingspeak_url env b)])
      | None \<Rightarrow>
          (case publish_multiple w (mqtt_publish env b) of
             Some e \<Rightarrow> (Inl e, [UrlOpen (thingspeak_url env b), UrlClose, Publish (mqtt_publish env b)])
           | None \<Rightarrow> (Inr (), [UrlOpen (thingspeak_url env b), UrlClose, Publish (mqtt_publish env b)])))"
  by (simp add: deliver_def split: option.splits)

lemma handle_delivery_shape:
  "(\<exists>s. handle_delivery env e = (Inr (), [LogError s])) \<or>
   (\<exists>e'. handle_delivery env e = (Inl e', []))"
  by (simp add: handle_delivery_def checksLogger_error_def emit_def raise_def)

lemma handle_delivery_bound:
  assumes "is_Exception e" and "checksLogger_bound env" and "httplib_bound env"
  shows "\<exists>s. handle_delivery env e = (Inr (), [LogError s])"
  using assms by (simp add: handle_delivery_def checksLogger_error_def emit_def)

lemma cycle_body_acquire_fails:
  assumes "fst (acquire env w) = Inl e"
  shows "cycle_body env w = (Inl e, snd (acquire env w))"
proof -
  from assms have "acquire env w = (Inl e, snd (acquire env w))"
    by (metis prod.collapse)
  then show ?thesis
    unfolding cycle_body_def by (metis andthen_Inl)
qed

lemma cycle_body_acquired:
  assumes "acquire env w = (Inr b, tr)"
  shows "cycle_body env w =
    (case try_except (deliver env w b) (handle_delivery env) of
       (Inl e, tr') \<Rightarrow> (Inl e, tr @ tr')
     | (Inr u, tr') \<Rightarrow> (Inr (), tr @ tr' @ [Sleep 600]))"
  using assms by (simp add: cycle_body_def split: prod.splits sum.splits)

lemma iteration_returns: "fst (iteration env w) = Inr ()"
  by (cases "cycle_body env w"; cases "fst (cycle_body env w)") (auto simp add: iteration_def)

lemma main_loop_runs: "main_loop env ws = (Inr (), concat (map (\<lambda>w. snd (iteration env w)) ws))"
proof (induction ws)
  case Nil
  show ?case by (simp add: ret_def)
next
  case (Cons w ws)
  have "iteration env w = (Inr (), snd (iteration env w))"
    using iteration_returns [of env w] by (metis prod.collapse)
  then have "main_loop env (w # ws) =
      (fst (main_loop env ws), snd (iteration env w) @ snd (main_loop env ws))"
    by (metis andthen_Inr main_loop.simps(2))
  then show ?case using Cons by simp
qed

subsection \<open>Concrete acquisitions\<close>

lemma acquire_w_ok:
  "acquire env0 w_ok = (Inr batch0, [SensorRead 2, SensorRead 3, SensorRead 4, SensorRead 17])"
  by (simp add: acquire_def getSensorData_def env0_def w_ok_def reads_ok_def batch0_def)

lemma acquire_w_log_fails:
  "acquire env0 w_log_fails = (Inr batch0, [SensorRead 2, SensorRead 3, SensorRead 4, SensorRead 17])"
  by (simp add: acquire_def getSensorData_def env0_def w_ok_def w_log_fails_def reads_ok_def batch0_def)

lemma acquire_w_broker_fails:
  "acquire env0 w_broker_fails = (Inr batch0, [SensorRead 2, SensorRead 3, SensorRead 4, SensorRead 17])"
  by (simp add: acquire_def getSensorData_def env0_def w_ok_def w_broker_fails_def reads_ok_def batch0_def)

lemma acquire_w_pin4_fails:
  "acquire env0 w_pin4_fails = (Inl TypeError, [SensorRead 2, SensorRead 3, SensorRead 4])"
  by (simp add: acquire_def getSensorData_def env0_def w_ok_def w_pin4_fails_def reads_ok_def)

lemma env0_bound: "checksLogger_bound env0 \<and> httplib_bound env0"
  by (simp add: env0_def)

subsection \<open>Acquisition\<close>

text \<open>
  Claim C2, as the code has it. \<^verbatim>\<open>getSensorData\<close> reads the sensor once (the retries are
  inside \<^verbatim>\<open>read_retry\<close>). When the read gives two numbers it returns the two formatted
  strings. When the read gives \<^verbatim>\<open>None\<close> for a value, which is what the library gives once
  its retries are exhausted, \<^verbatim>\<open>round\<close> raises \<^verbatim>\<open>TypeError\<close> and the exception leaves
  \<^verbatim>\<open>getSensorData\<close>; an exception of the library itself leaves it as well. No value with a
  failure marker is ever returned.
\<close>

theorem getSensorData_result:
  "getSensorData env w pin =
     (case read_retry w pin of
        Inl e \<Rightarrow> (Inl e, [SensorRead pin])
      | Inr (None, t) \<Rightarrow> (Inl TypeError, [SensorRead pin])
      | Inr (Some rh, None) \<Rightarrow> (Inl TypeError, [SensorRead pin])
      | Inr (Some rh, Some t) \<Rightarrow>
          (Inr (str_round1 env rh, str_round1 env t), [SensorRead pin]))"
  by (simp add: getSensorData_def split: sum.splits prod.splits option.splits)

text \<open>
  Claim C2 as stated fails: on pin 4 of the world \<open>w_pin4_fails\<close>, where the read gives
  \<^verbatim>\<open>(None, None)\<close>, \<^verbatim>\<open>getSensorData\<close> raises \<^verbatim>\<open>TypeError\<close> instead of returning a reading.
\<close>

theorem getSensorData_raises_on_failed_read:
  "fst (getSensorData env0 w_pin4_fails 4) = Inl TypeError"
  by (simp add: getSensorData_def w_pin4_fails_def w_ok_def)

lemma getSensorData_trace: "snd (getSensorData env w pin) = [SensorRead pin]"
  using getSensorData_cases [of w pin env] by auto

lemma getSensorData_raised:
  "fst (getSensorData env w pin) = Inl e \<Longrightarrow> getSensorData env w pin = (Inl e, [SensorRead pin])"
  using getSensorData_trace [of env w pin] by (cases "getSensorData env w pin") simp

lemma getSensorData_returned:
  "fst (getSensorData env w pin) = Inr r \<Longrightarrow> getSensorData env w pin = (Inr r, [SensorRead pin])"
  using getSensorData_trace [of env w pin] by (cases "getSensorData env w pin") simp

text \<open>
  Claim C3, as the code has it. When all four reads give numbers, the cycle holds exactly one
  reading per channel, taken in the fixed order of the pins 2, 3, 4 and 17. When the
  acquisition of a channel raises, the acquisition of the batch raises the same exception
  at once, and so does the body of the cycle: its whole trace is the reads up to and
  including the failing channel. The channels after it are not read, no batch exists, no
  request goes to the logging endpoint and nothing is published. There is no sentinel value.
\<close>

theorem acquire_all_or_abort:
  "(read_retry w 2 = Inr (Some h1, Some t1) \<and> read_retry w 3 = Inr (Some h2, Some t2) \<and>
    read_retry w 4 = Inr (Some h3, Some t3) \<and> read_retry w 17 = Inr (Some h4, Some t4) \<longrightarrow>
    acquire env w =
      (Inr \<lparr>RH = str_round1 env h1, T = str_round1 env t1,
            RH2 = str_round1 env h2, T2 = str_round1 env t2,
            RH3 = str_round1 env h3, T3 = str_round1 env t3,
            RH4 = str_round1 env h4, T4 = str_round1 env t4\<rparr>,
       [SensorRead 2, SensorRead 3, SensorRead 4, SensorRead 17])) \<and>
   (fst (getSensorData env w 2) = Inl e \<longrightarrow>
    acquire env w = (Inl e, [SensorRead 2]) \<and>
    cycle_body env w = (Inl e, [SensorRead 2])) \<and>
   (fst (getSensorData env w 2) = Inr r2 \<and> fst (getSensorData env w 3) = Inl e \<longrightarrow>
    acquire env w = (Inl e, [SensorRead 2, SensorRead 3]) \<and>
    cycle_body env w = (Inl e, [SensorRead 2, SensorRead 3])) \<and>
   (fst (getSensorData env w 2) = Inr r2 \<and> fst (getSensorData env w 3) = Inr r3 \<and>
    fst (getSensorData env w 4) = Inl e \<longrightarrow>
    acquire env w = (Inl e, [SensorRead 2, SensorRead 3, SensorRead 4]) \<and>
    cycle_body env w = (Inl e, [SensorRead 2, SensorRead 3, SensorRead 4])) \<and>
   (fst (getSensorData env w 2) = Inr r2 \<and> fst (getSensorData env w 3) = Inr r3 \<and>
    fst (getSensorData env w 4) = Inr r4 \<and> fst (getSensorData env w 17) = Inl e \<longrightarrow>
    acquire env w = (Inl e, [SensorRead 2, SensorRead 3, SensorRead 4, SensorRead 17]) \<and>
    cycle_body env w = (Inl e, [SensorRead 2, SensorRead 3, SensorRead 4, SensorRead 17]))"
proof (intro conjI impI)
  assume "read_retry w 2 = Inr (Some h1, Some t1) \<and> read_retry w 3 = Inr (Some h2, Some t2) \<and>
    read_retry w 4 = Inr (Some h3, Some t3) \<and> read_retry w 17 = Inr (Some h4, Some t4)"
  then show "acquire env w =
      (Inr \<lparr>RH = str_round1 env h1, T = str_round1 env t1,
            RH2 = str_round1 env h2, T2 = str_round1 env t2,
            RH3 = str_round1 env h3, T3 = str_round1 env t3,
            RH4 = str_round1 env h4, T4 = str_round1 env t4\<rparr>,
       [SensorRead 2, SensorRead 3, SensorRead 4, SensorRead 17])"
    by (simp add: acquire_ok)
next
  assume "fst (getSensorData env w 2) = Inl e"
  then have g2: "getSensorData env w 2 = (Inl e, [SensorRead 2])"
    by (rule getSensorData_raised)
  show a: "acquire env w = (Inl e, [SensorRead 2])"
    unfolding acquire_def g2 by simp
  show "cycle_body env w = (Inl e, [SensorRead 2])"
    unfolding cycle_body_def a by simp
next
  assume h: "fst (getSensorData env w 2) = Inr r2 \<and> fst (getSensorData env w 3) = Inl e"
  have g2: "getSensorData env w 2 = (Inr r2, [SensorRead 2])"
    using h by (simp add: getSensorData_returned)
  have g3: "getSensorData env w 3 = (Inl e, [SensorRead 3])"
    using h by (simp add: getSensorData_raised)
  show a: "acquire env w = (Inl e, [SensorRead 2, SensorRead 3])"
    unfolding acquire_def g2 g3 by (simp split: prod.splits)
  show "cycle_body env w = (Inl e, [SensorRead 2, SensorRead 3])"
    unfolding cycle_body_def a by simp
next
  assume h: "fst (getSensorData env w 2) = Inr r2 \<and> fst (getSensorData env w 3) = Inr r3 \<and>
    fst (getSensorData env w 4) = Inl e"
  have g2: "getSensorData env w 2 = (Inr r2, [SensorRead 2])"
    using h by (simp add: getSensorData_returned)
  have g3: "getSensorData env w 3 = (Inr r3, [SensorRead 3])"
    using h by (simp add: getSensorData_returned)
  have g4: "getSensorData env w 4 = (Inl e, [SensorRead 4])"
    using h by (simp add: getSensorData_raised)
  show a: "acquire env w = (Inl e, [SensorRead 2, SensorRead 3, SensorRead 4])"
    unfolding acquire_def g2 g3 g4 by (simp split: prod.splits)
  show "cycle_body env w = (Inl e, [SensorRead 2, SensorRead 3, SensorRead 4])"
    unfolding cycle_body_def a by simp
next
  assume h: "fst (getSensorData env w 2) = Inr r2 \<and> fst (getSensorData env w 3) = Inr r3 \<and>
    fst (getSensorData env w 4) = Inr r4 \<and> fst (getSensorData env w 17) = Inl e"
  have g2: "getSensorData env w 2 = (Inr r2, [SensorRead 2])"
    using h by (simp add: getSensorData_returned)
  have g3: "getSensorData env w 3 = (Inr r3, [SensorRead 3])"
    using h by (simp add: getSensorData_returned)
  have g4: "getSensorData env w 4 = (Inr r4, [SensorRead 4])"
    using h by (simp add: getSensorData_returned)
  have g17: "getSensorData env w 17 = (Inl e, [SensorRead 17])"
    using h by (simp add: getSensorData_raised)
  show a: "acquire env w = (Inl e, [SensorRead 2, SensorRead 3, SensorRead 4, SensorRead 17])"
    unfolding acquire_def g2 g3 g4 g17 by (simp split: prod.splits)
  show "cycle_body env w =
      (Inl e, [SensorRead 2, SensorRead 3, SensorRead 4, SensorRead 17])"
    unfolding cycle_body_def a by simp
qed

text \<open>
  All five cases at concrete worlds: every sensor answers; the sensor on pin 2, on pin 3 or
  on pin 4 gives no values; the read of pin 17 raises an exception of the library.
\<close>

theorem acquire_all_or_abort_witness:
  "acquire env0 w_ok =
     (Inr \<lparr>RH = ''61.3'', T = ''22.5'', RH2 = ''55.5'', T2 = ''19.0'',
           RH3 = ''48.0'', T3 = ''20.1'', RH4 = ''70.2'', T4 = ''17.8''\<rparr>,
      [SensorRead 2, SensorRead 3, SensorRead 4, SensorRead 17]) \<and>
   fst (getSensorData env0 (w_ok\<lparr>read_retry := reads_ok(2 := Inr (None, None))\<rparr>) 2) =
     Inl TypeError \<and>
   cycle_body env0 (w_ok\<lparr>read_retry := reads_ok(2 := Inr (None, None))\<rparr>) =
     (Inl TypeError, [SensorRead 2]) \<and>
   fst (getSensorData env0 (w_ok\<lparr>read_retry := reads_ok(3 := Inr (None, None))\<rparr>) 3) =
     Inl TypeError \<and>
   cycle_body env0 (w_ok\<lparr>read_retry := reads_ok(3 := Inr (None, None))\<rparr>) =
     (Inl TypeError, [SensorRead 2, SensorRead 3]) \<and>
   fst (getSensorData env0 w_pin4_fails 4) = Inl TypeError \<and>
   cycle_body env0 w_pin4_fails =
     (Inl TypeError, [SensorRead 2, SensorRead 3, SensorRead 4]) \<and>
   fst (getSensorData env0 (w_ok\<lparr>read_retry := reads_ok(17 := Inl RuntimeError)\<rparr>) 17) =
     Inl RuntimeError \<and>
   cycle_body env0 (w_ok\<lparr>read_retry := reads_ok(17 := Inl RuntimeError)\<rparr>) =
     (Inl RuntimeError, [SensorRead 2, SensorRead 3, SensorRead 4, SensorRead 17])"
proof -
  have ok: "read_retry w_ok 2 = Inr (Some ''61.3'', Some ''22.5'') \<and>
      read_retry w_ok 3 = Inr (Some ''55.5'', Some ''19.0'') \<and>
      read_retry w_ok 4 = Inr (Some ''48.0'', Some ''20.1'') \<and>
      read_retry w_ok 17 = Inr (Some ''70.2'', Some ''17.8'')"
    by (simp add: w_ok_def reads_ok_def)
  have f2: "fst (getSensorData env0 (w_ok\<lparr>read_retry := reads_ok(2 := Inr (None, None))\<rparr>) 2) =
      Inl TypeError"
    by (simp add: getSensorData_def)
  have f3: "fst (getSensorData env0 (w_ok\<lparr>read_retry := reads_ok(3 := Inr (None, None))\<rparr>) 2) =
        Inr (''61.3'', ''22.5'') \<and>
      fst (getSensorData env0 (w_ok\<lparr>read_retry := reads_ok(3 := Inr (None, None))\<rparr>) 3) =
        Inl TypeError"
    by (simp add: getSensorData_def reads_ok_def env0_def)
  have f4: "fst (getSensorData env0 w_pin4_fails 2) = Inr (''61.3'', ''22.5'') \<and>
      fst (getSensorData env0 w_pin4_fails 3) = Inr (''55.5'', ''19.0'') \<and>
      fst (getSensorData env0 w_pin4_fails 4) = Inl TypeError"
    by (simp add: getSensorData_def reads_ok_def env0_def w_pin4_fails_def)
  have f17: "fst (getSensorData env0 (w_ok\<lparr>read_retry := reads_ok(17 := Inl RuntimeError)\<rparr>) 2) =
        Inr (''61.3'', ''22.5'') \<and>
      fst (getSensorData env0 (w_ok\<lparr>read_retry := reads_ok(17 := Inl RuntimeError)\<rparr>) 3) =
        Inr (''55.5'', ''19.0'') \<and>
      fst (getSensorData env0 (w_ok\<lparr>read_retry := reads_ok(17 := Inl RuntimeError)\<rparr>) 4) =
        Inr (''48.0'', ''20.1'') \<and>
      fst (getSensorData env0 (w_ok\<lparr>read_retry := reads_ok(17 := Inl RuntimeError)\<rparr>) 17) =
        Inl RuntimeError"
    by (simp add: getSensorData_def reads_ok_def env0_def)
  have s: "str_round1 env0 = (\<lambda>s. s)"
    by (simp add: env0_def)
  have 1: "acquire env0 w_ok =
     (Inr \<lparr>RH = ''61.3'', T = ''22.5'', RH2 = ''55.5'', T2 = ''19.0'',
           RH3 = ''48.0'', T3 = ''20.1'', RH4 = ''70.2'', T4 = ''17.8''\<rparr>,
      [SensorRead 2, SensorRead 3, SensorRead 4, SensorRead 17])"
    using ok acquire_all_or_abort [where w = w_ok and env = env0
        and ?h1.0 = "''61.3''" and ?t1.0 = "''22.5''" and ?h2.0 = "''55.5''" and ?t2.0 = "''19.0''"
        and ?h3.0 = "''48.0''" and ?t3.0 = "''20.1''" and ?h4.0 = "''70.2''" and ?t4.0 = "''17.8''"]
    by (simp add: s)
  have 2: "cycle_body env0 (w_ok\<lparr>read_retry := reads_ok(2 := Inr (None, None))\<rparr>) =
     (Inl TypeError, [SensorRead 2])"
    using f2 acquire_all_or_abort [where w = "w_ok\<lparr>read_retry := reads_ok(2 := Inr (None, None))\<rparr>"
        and env = env0 and e = TypeError]
    by blast
  have 3: "cycle_body env0 (w_ok\<lparr>read_retry := reads_ok(3 := Inr (None, None))\<rparr>) =
     (Inl TypeError, [SensorRead 2, SensorRead 3])"
    using f3 acquire_all_or_abort [where w = "w_ok\<lparr>read_retry := reads_ok(3 := Inr (None, None))\<rparr>"
        and env = env0 and e = TypeError and ?r2.0 = "(''61.3'', ''22.5'')"]
    by blast
  have 4: "cycle_body env0 w_pin4_fails =
     (Inl TypeError, [SensorRead 2, SensorRead 3, SensorRead 4])"
    using f4 acquire_all_or_abort [where w = w_pin4_fails
        and env = env0 and e = TypeError and ?r2.0 = "(''61.3'', ''22.5'')"
        and ?r3.0 = "(''55.5'', ''19.0'')"]
    by blast
  have 5: "cycle_body env0 (w_ok\<lparr>read_retry := reads_ok(17 := Inl RuntimeError)\<rparr>) =
     (Inl RuntimeError, [SensorRead 2, SensorRead 3, SensorRead 4, SensorRead 17])"
    using f17 acquire_all_or_abort [where w = "w_ok\<lparr>read_retry := reads_ok(17 := Inl RuntimeError)\<rparr>"
        and env = env0 and e = RuntimeError and ?r2.0 = "(''61.3'', ''22.5'')"
        and ?r3.0 = "(''55.5'', ''19.0'')" and ?r4.0 = "(''48.0'', ''20.1'')"]
    by blast
  from 1 2 3 4 5 f2 f3 f4 f17 show ?thesis
    by blast
qed

text \<open>
  Claim C3 as stated fails: when the sensor on pin 4 gives no values, the acquisition raises
  after the third read. The channel on pin 17 is never read and no batch exists.
\<close>

theorem acquire_stops_at_failed_channel:
  "acquire env0 w_pin4_fails = (Inl TypeError, [SensorRead 2, SensorRead 3, SensorRead 4])"
  by (simp add: acquire_def getSensorData_def env0_def w_ok_def w_pin4_fails_def reads_ok_def)

subsection \<open>Delivery\<close>

text \<open>
  Claim C1, as the code has it. \<^verbatim>\<open>urlopen\<close> and \<^verbatim>\<open>publish.multiple\<close> stand in the same
  \<^verbatim>\<open>try\<close> block. When the request to the logging endpoint raises any subclass of
  \<^verbatim>\<open>Exception\<close>, and the configuration module binds \<^verbatim>\<open>checksLogger\<close> and \<^verbatim>\<open>httplib\<close>, the
  error is logged and the cycle goes on to \<^verbatim>\<open>sleep(600)\<close> without raising; the broker
  delivery of that cycle is not invoked.
\<close>

theorem log_failure_skips_broker:
  assumes "acquire env w = (Inr b, tr)"
    and "urlopen w (thingspeak_url env b) = Some e"
    and "is_Exception e"
    and "checksLogger_bound env"
    and "httplib_bound env"
  shows "(\<exists>s. cycle_body env w =
            (Inr (), tr @ [UrlOpen (thingspeak_url env b), LogError s, Sleep 600])) \<and>
         publish_calls (snd (cycle_body env w)) = []"
proof -
  from handle_delivery_bound [OF assms(3-5)]
  obtain s where h: "handle_delivery env e = (Inr (), [LogError s])" ..
  have d: "deliver env w b = (Inl e, [UrlOpen (thingspeak_url env b)])"
    using assms(2) by (simp add: deliver_shape)
  have c: "cycle_body env w =
      (Inr (), tr @ [UrlOpen (thingspeak_url env b), LogError s, Sleep 600])"
    using h d by (simp add: cycle_body_acquired [OF assms(1)])
  have "publish_calls tr = []"
    using acquire_trace_reads [of env w] assms(1) by simp
  with c show ?thesis by simp
qed

text \<open>The hypotheses hold in the world where the logging endpoint refuses the connection.\<close>

theorem log_failure_skips_broker_witness:
  "acquire env0 w_log_fails =
     (Inr batch0, [SensorRead 2, SensorRead 3, SensorRead 4, SensorRead 17]) \<and>
   urlopen w_log_fails (thingspeak_url env0 batch0) =
     Some (URLError ''[Errno 111] Connection refused'') \<and>
   is_Exception (URLError ''[Errno 111] Connection refused'') \<and>
   checksLogger_bound env0 \<and> httplib_bound env0 \<and>
   (\<exists>s. cycle_body env0 w_log_fails =
      (Inr (), [SensorRead 2, SensorRead 3, SensorRead 4, SensorRead 17] @
         [UrlOpen (thingspeak_url env0 batch0), LogError s, Sleep 600])) \<and>
   publish_calls (snd (cycle_body env0 w_log_fails)) = []"
proof -
  have a: "acquire env0 w_log_fails =
      (Inr batch0, [SensorRead 2, SensorRead 3, SensorRead 4, SensorRead 17])"
    by (rule acquire_w_log_fails)
  have u: "urlopen w_log_fails (thingspeak_url env0 batch0) =
      Some (URLError ''[Errno 111] Connection refused'')"
    by (simp add: w_log_fails_def w_ok_def)
  have x: "is_Exception (URLError ''[Errno 111] Connection refused'')"
    by simp
  have c: "checksLogger_bound env0" and l: "httplib_bound env0"
    by (simp_all add: env0_def)
  from log_failure_skips_broker [OF a u x c l] a u x c l show ?thesis
    by blast
qed

text \<open>
  Claim C1 as stated fails: with all four reads successful and the logging endpoint refusing
  the connection, the whole trace of the cycle has no call of \<^verbatim>\<open>publish.multiple\<close>.
\<close>

theorem log_failure_no_publish:
  "snd (cycle_body env0 w_log_fails) =
     [SensorRead 2, SensorRead 3, SensorRead 4, SensorRead 17,
      UrlOpen (thingspeak_url env0 batch0),
      LogError ''URLError = [Errno 111] Connection refused'', Sleep 600] \<and>
   publish_calls (snd (cycle_body env0 w_log_fails)) = []"
proof -
  have d: "deliver env0 w_log_fails batch0 =
      (Inl (URLError ''[Errno 111] Connection refused''), [UrlOpen (thingspeak_url env0 batch0)])"
    by (simp add: deliver_shape w_log_fails_def w_ok_def)
  have h: "handle_delivery env0 (URLError ''[Errno 111] Connection refused'') =
      (Inr (), [LogError ''URLError = [Errno 111] Connection refused''])"
    by (simp add: handle_delivery_def checksLogger_error_def emit_def env0_def)
  show ?thesis
    using d h by (simp add: cycle_body_acquired [OF acquire_w_log_fails])
qed






subsection \<open>The loop\<close>

lemma handled_trace:
  "sleeps (snd (handle_delivery env e)) = [] \<and>
   url_requests (snd (handle_delivery env e)) = [] \<and>
   publish_calls (snd (handle_delivery env e)) = []"
  using handle_delivery_shape [of env e] by auto

lemma guarded_deliver_trace:
  "sleeps (snd (try_except (deliver env w b) (handle_delivery env))) = [] \<and>
   url_requests (snd (try_except (deliver env w b) (handle_delivery env))) =
     [thingspeak_url env b] \<and>
   (publish_calls (snd (try_except (deliver env w b) (handle_delivery env))) = [] \<or>
    publish_calls (snd (try_except (deliver env w b) (handle_delivery env))) =
      [mqtt_publish env b])"
proof (cases "urlopen w (thingspeak_url env b)")
  case (Some e)
  then have "deliver env w b = (Inl e, [UrlOpen (thingspeak_url env b)])"
    by (simp add: deliver_shape)
  then show ?thesis
    using handled_trace [of env e] by simp
next
  case None
  show ?thesis
  proof (cases "publish_multiple w (mqtt_publish env b)")
    case (Some e)
    then have "deliver env w b =
        (Inl e, [UrlOpen (thingspeak_url env b), UrlClose, Publish (mqtt_publish env b)])"
      using None by (simp add: deliver_shape)
    then show ?thesis
      using handled_trace [of env e] by simp
  next
    case None2: None
    then have "deliver env w b =
        (Inr (), [UrlOpen (thingspeak_url env b), UrlClose, Publish (mqtt_publish env b)])"
      using None by (simp add: deliver_shape)
    then show ?thesis by simp
  qed
qed

lemma cycle_body_acquired_trace:
  assumes "acquire env w = (Inr b, tr)"
  shows "snd (cycle_body env w) =
      tr @ snd (try_except (deliver env w b) (handle_delivery env)) @
        (case fst (try_except (deliver env w b) (handle_delivery env)) of
           Inl e \<Rightarrow> [] | Inr u \<Rightarrow> [Sleep 600])"
    and "fst (cycle_body env w) =
        (case fst (try_except (deliver env w b) (handle_delivery env)) of
           Inl e \<Rightarrow> Inl e | Inr u \<Rightarrow> Inr ())"
  by (simp_all add: cycle_body_acquired [OF assms] split: prod.splits sum.splits)

lemma iteration_trace:
  "snd (iteration env w) =
     snd (cycle_body env w) @
       (case fst (cycle_body env w) of Inl e \<Rightarrow> [PrintError e] | Inr u \<Rightarrow> [])"
proof (cases "cycle_body env w")
  case (Pair r tr)
  then show ?thesis
    by (cases r) (simp_all add: iteration_def)
qed

lemma cycle_body_raise_no_sleep:
  assumes "fst (cycle_body env w) = Inl e"
  shows "sleeps (snd (cycle_body env w)) = []"
proof (cases "acquire env w")
  case (Pair r tr)
  show ?thesis
  proof (cases r)
    case (Inl e')
    then have "fst (acquire env w) = Inl e'"
      using Pair by simp
    from cycle_body_acquire_fails [OF this] acquire_trace_reads [of env w]
    show ?thesis by simp
  next
    case (Inr b)
    then have a: "acquire env w = (Inr b, tr)"
      using Pair by simp
    have t: "sleeps tr = []"
      using acquire_trace_reads [of env w] a by simp
    have "\<exists>e'. fst (try_except (deliver env w b) (handle_delivery env)) = Inl e'"
      using assms cycle_body_acquired_trace(2) [OF a]
      by (cases "fst (try_except (deliver env w b) (handle_delivery env))") simp_all
    then show ?thesis
      using t guarded_deliver_trace [of env w b] cycle_body_acquired_trace(1) [OF a]
      by auto
  qed
qed

text \<open>
  Claim C5, as the code has it. Whatever the worlds are, the loop runs every iteration it is
  given and no exception leaves it: it has no exit of its own. An exception that leaves the
  body of a cycle is caught by the bare \<^verbatim>\<open>except:\<close> and printed, and the iteration ends
  there. The trace of such an iteration contains no \<^verbatim>\<open>sleep\<close>: the next iteration starts at
  once, without a pause.
\<close>

theorem loop_never_exits:
  "main_loop env ws = (Inr (), concat (map (\<lambda>w. snd (iteration env w)) ws)) \<and>
   (fst (cycle_body env w) = Inl e \<longrightarrow>
      iteration env w = (Inr (), snd (cycle_body env w) @ [PrintError e]) \<and>
      sleeps (snd (iteration env w)) = [])"
proof (intro conjI impI)
  show "main_loop env ws = (Inr (), concat (map (\<lambda>w. snd (iteration env w)) ws))"
    by (rule main_loop_runs)
next
  assume e: "fst (cycle_body env w) = Inl e"
  obtain r tr where c: "cycle_body env w = (r, tr)"
    by (cases "cycle_body env w")
  with e have "r = Inl e"
    by simp
  with c show i: "iteration env w = (Inr (), snd (cycle_body env w) @ [PrintError e])"
    by (simp add: iteration_def)
  show "sleeps (snd (iteration env w)) = []"
    using i cycle_body_raise_no_sleep [OF e] by simp
qed

text \<open>The hypothesis holds in the world where the sensor on pin 4 fails.\<close>

theorem loop_never_exits_witness:
  "main_loop env0 [w_pin4_fails, w_ok] =
     (Inr (), concat (map (\<lambda>w. snd (iteration env0 w)) [w_pin4_fails, w_ok])) \<and>
   fst (cycle_body env0 w_pin4_fails) = Inl TypeError \<and>
   iteration env0 w_pin4_fails =
     (Inr (), snd (cycle_body env0 w_pin4_fails) @ [PrintError TypeError]) \<and>
   sleeps (snd (iteration env0 w_pin4_fails)) = []"
proof -
  have "fst (acquire env0 w_pin4_fails) = Inl TypeError"
    by (simp add: acquire_w_pin4_fails)
  then have f: "fst (cycle_body env0 w_pin4_fails) = Inl TypeError"
    by (simp add: cycle_body_acquire_fails)
  from loop_never_exits [of env0 "[w_pin4_fails, w_ok]" w_pin4_fails TypeError] f
  show ?thesis by blast
qed

text \<open>
  Claim C5 as stated fails in its pause: two iterations in a row with a failing sensor give a
  trace in which the first read of the second iteration follows the printed error directly.
\<close>

theorem failed_cycle_restarts_without_pause:
  "snd (main_loop env0 [w_pin4_fails, w_pin4_fails]) =
     [SensorRead 2, SensorRead 3, SensorRead 4, PrintError TypeError,
      SensorRead 2, SensorRead 3, SensorRead 4, PrintError TypeError]"
proof -
  have "fst (acquire env0 w_pin4_fails) = Inl TypeError"
    by (simp add: acquire_w_pin4_fails)
  then have "cycle_body env0 w_pin4_fails =
      (Inl TypeError, [SensorRead 2, SensorRead 3, SensorRead 4])"
    by (simp add: cycle_body_acquire_fails acquire_w_pin4_fails)
  then have "iteration env0 w_pin4_fails =
      (Inr (), [SensorRead 2, SensorRead 3, SensorRead 4, PrintError TypeError])"
    by (simp add: iteration_def)
  then show ?thesis
    by (simp add: main_loop_runs)
qed

subsection \<open>What is sent\<close>

lemma iteration_publish_calls:
  "publish_calls (snd (iteration env w)) = [] \<or>
   (\<exists>b tr. acquire env w = (Inr b, tr) \<and>
      publish_calls (snd (iteration env w)) = [mqtt_publish env b])"
proof (cases "acquire env w")
  case (Pair r tr)
  show ?thesis
  proof (cases r)
    case (Inl e')
    then have "fst (acquire env w) = Inl e'"
      using Pair by simp
    from cycle_body_acquire_fails [OF this] acquire_trace_reads [of env w]
    show ?thesis by (simp add: iteration_def)
  next
    case (Inr b)
    then have a: "acquire env w = (Inr b, tr)"
      using Pair by simp
    have t: "publish_calls tr = []"
      using acquire_trace_reads [of env w] a by simp
    have "publish_calls (snd (iteration env w)) =
        publish_calls (snd (try_except (deliver env w b) (handle_delivery env)))"
      using t by (simp add: iteration_trace cycle_body_acquired_trace(1) [OF a]
          split: sum.splits)
    then show ?thesis
      using a guarded_deliver_trace [of env w b] by auto
  qed
qed

lemma iteration_url_requests:
  "url_requests (snd (iteration env w)) =
     (case fst (acquire env w) of Inl e \<Rightarrow> [] | Inr b \<Rightarrow> [thingspeak_url env b])"
proof (cases "acquire env w")
  case (Pair r tr)
  show ?thesis
  proof (cases r)
    case (Inl e')
    then have f: "fst (acquire env w) = Inl e'"
      using Pair by simp
    from cycle_body_acquire_fails [OF this] acquire_trace_reads [of env w] f
    show ?thesis by (simp add: iteration_def)
  next
    case (Inr b)
    then have a: "acquire env w = (Inr b, tr)"
      using Pair by simp
    have t: "url_requests tr = []"
      using acquire_trace_reads [of env w] a by simp
    have "url_requests (snd (iteration env w)) =
        url_requests (snd (try_except (deliver env w b) (handle_delivery env)))"
      using t by (simp add: iteration_trace cycle_body_acquired_trace(1) [OF a]
          split: sum.splits)
    then show ?thesis
      using a guarded_deliver_trace [of env w b] by simp
  qed
qed

lemma iteration_w_ok:
  "iteration env0 w_ok =
     (Inr (), [SensorRead 2, SensorRead 3, SensorRead 4, SensorRead 17,
               UrlOpen (thingspeak_url env0 batch0), UrlClose,
               Publish (mqtt_publish env0 batch0), Sleep 600])"
proof -
  have "deliver env0 w_ok batch0 =
      (Inr (), [UrlOpen (thingspeak_url env0 batch0), UrlClose,
                Publish (mqtt_publish env0 batch0)])"
    by (simp add: deliver_shape w_ok_def)
  then show ?thesis
    by (simp add: iteration_def cycle_body_acquired [OF acquire_w_ok])
qed

lemma iteration_w_broker_fails:
  "publish_calls (snd (iteration env0 w_broker_fails)) = [mqtt_publish env0 batch0] \<and>
   url_requests (snd (iteration env0 w_broker_fails)) = [thingspeak_url env0 batch0]"
proof -
  have d: "deliver env0 w_broker_fails batch0 =
      (Inl (OtherException ''socket.error''),
       [UrlOpen (thingspeak_url env0 batch0), UrlClose, Publish (mqtt_publish env0 batch0)])"
    by (simp add: deliver_shape w_broker_fails_def w_ok_def)
  have h: "handle_delivery env0 (OtherException ''socket.error'') =
      (Inr (), [LogError (''generic exception: '' @ format_exc env0 (OtherException ''socket.error''))])"
    by (simp add: handle_delivery_def checksLogger_error_def emit_def env0_def)
  show ?thesis
    using d h by (simp add: iteration_def cycle_body_acquired [OF acquire_w_broker_fails])
qed

text \<open>
  Claim C7. Every call of \<^verbatim>\<open>publish.multiple\<close> that an iteration makes carries the six
  messages of the fixed topics, each with QoS 0 and \<^verbatim>\<open>retain = True\<close>, and the user name and
  password of the configuration; and it is the only such call of the iteration, so all
  messages of a cycle go out through one authenticated call.
\<close>

theorem broker_messages_retained:
  assumes "p \<in> set (publish_calls (snd (iteration env w)))"
  shows "(\<forall>m \<in> set (msgs p). msg_qos m = 0 \<and> msg_retain m = True) \<and>
         map msg_topic (msgs p) =
           [''/temperature/garden'', ''/temperature/taras'', ''/hummidity/taras'',
            ''/temperature/loundry'', ''/hummidity/loundry'', ''/temperature/front''] \<and>
         auth_username p = mqtt_uname env \<and> auth_password p = mqtt_pw env \<and>
         publish_calls (snd (iteration env w)) = [p]"
proof -
  from iteration_publish_calls [of env w] assms
  obtain b where b: "publish_calls (snd (iteration env w)) = [mqtt_publish env b]"
    by auto
  with assms have p: "p = mqtt_publish env b"
    by simp
  show ?thesis
    unfolding p using b by (simp add: mqtt_publish_def mqtt_msgs_def)
qed

text \<open>The hypothesis holds in the world where everything succeeds.\<close>

theorem broker_messages_retained_witness:
  "mqtt_publish env0 batch0 \<in> set (publish_calls (snd (iteration env0 w_ok))) \<and>
   map msg_qos (msgs (mqtt_publish env0 batch0)) = [0, 0, 0, 0, 0, 0] \<and>
   map msg_retain (msgs (mqtt_publish env0 batch0)) = [True, True, True, True, True, True] \<and>
   map msg_topic (msgs (mqtt_publish env0 batch0)) =
     [''/temperature/garden'', ''/temperature/taras'', ''/hummidity/taras'',
      ''/temperature/loundry'', ''/hummidity/loundry'', ''/temperature/front''] \<and>
   auth_username (mqtt_publish env0 batch0) = ''pi'' \<and>
   auth_password (mqtt_publish env0 batch0) = ''secret'' \<and>
   publish_calls (snd (iteration env0 w_ok)) = [mqtt_publish env0 batch0]"
proof -
  have m: "mqtt_publish env0 batch0 \<in> set (publish_calls (snd (iteration env0 w_ok)))"
    by (simp add: iteration_w_ok)
  have "mqtt_uname env0 = ''pi''" and "mqtt_pw env0 = ''secret''"
    by (simp_all add: env0_def)
  with broker_messages_retained [OF m] m show ?thesis
    by (simp add: mqtt_publish_def mqtt_msgs_def)
qed

text \<open>
  The calls of \<^verbatim>\<open>publish.multiple\<close> of an iteration: one, when the acquisition succeeds and
  \<^verbatim>\<open>urlopen\<close> returns; none otherwise.
\<close>

lemma iteration_publish_calls_eq:
  "publish_calls (snd (iteration env w)) =
     (case fst (acquire env w) of
        Inl e \<Rightarrow> []
      | Inr b \<Rightarrow>
          (case urlopen w (thingspeak_url env b) of
             None \<Rightarrow> [mqtt_publish env b]
           | Some e \<Rightarrow> []))"
proof (cases "acquire env w")
  case (Pair r tr)
  show ?thesis
  proof (cases r)
    case (Inl e')
    then have f: "fst (acquire env w) = Inl e'"
      using Pair by simp
    from cycle_body_acquire_fails [OF this] acquire_trace_reads [of env w] f
    show ?thesis by (simp add: iteration_def)
  next
    case (Inr b)
    then have a: "acquire env w = (Inr b, tr)"
      using Pair by simp
    have t: "publish_calls tr = []"
      using acquire_trace_reads [of env w] a by simp
    have i: "publish_calls (snd (iteration env w)) =
        publish_calls (snd (try_except (deliver env w b) (handle_delivery env)))"
      using t by (simp add: iteration_trace cycle_body_acquired_trace(1) [OF a]
          split: sum.splits)
    show ?thesis
    proof (cases "urlopen w (thingspeak_url env b)")
      case (Some e)
      then have "deliver env w b = (Inl e, [UrlOpen (thingspeak_url env b)])"
        by (simp add: deliver_shape)
      then show ?thesis
        using i a Some handled_trace [of env e] by simp
    next
      case None
      show ?thesis
      proof (cases "publish_multiple w (mqtt_publish env b)")
        case (Some e)
        then have "deliver env w b =
            (Inl e, [UrlOpen (thingspeak_url env b), UrlClose, Publish (mqtt_publish env b)])"
          using None by (simp add: deliver_shape)
        then show ?thesis
          using i a None handled_trace [of env e] by simp
      next
        case None2: None
        then have "deliver env w b =
            (Inr (), [UrlOpen (thingspeak_url env b), UrlClose, Publish (mqtt_publish env b)])"
          using None by (simp add: deliver_shape)
        then show ?thesis
          using i a None by simp
      qed
    qed
  qed
qed

text \<open>
  Claim C8, as the code has it. Two iterations under the same configuration whose sensor reads
  agree request the same URLs from the logging endpoint, whatever the sinks answer. Any call
  of \<^verbatim>\<open>publish.multiple\<close> of the one equals any such call of the other, and when the logging
  endpoint accepts the request in both or fails it in both, the two iterations publish
  exactly the same calls. The payloads have no field that varies with time.
\<close>

theorem payload_deterministic:
  assumes "read_retry w1 = read_retry w2"
  shows "url_requests (snd (iteration env w1)) = url_requests (snd (iteration env w2)) \<and>
         ((\<forall>u \<in> set (url_requests (snd (iteration env w1))).
             (urlopen w1 u = None) = (urlopen w2 u = None)) \<longrightarrow>
            publish_calls (snd (iteration env w1)) = publish_calls (snd (iteration env w2))) \<and>
         (\<forall>p1 \<in> set (publish_calls (snd (iteration env w1))).
          \<forall>p2 \<in> set (publish_calls (snd (iteration env w2))). p1 = p2)"
proof -
  have a: "acquire env w1 = acquire env w2"
    using assms by (rule acquire_depends_on_reads)
  have u: "url_requests (snd (iteration env w1)) = url_requests (snd (iteration env w2))"
    by (simp add: iteration_url_requests a)
  have q: "publish_calls (snd (iteration env w1)) = publish_calls (snd (iteration env w2))"
    if h: "\<forall>u \<in> set (url_requests (snd (iteration env w1))).
             (urlopen w1 u = None) = (urlopen w2 u = None)"
  proof (cases "fst (acquire env w2)")
    case (Inl e)
    then show ?thesis
      by (simp add: iteration_publish_calls_eq a)
  next
    case (Inr b)
    then have "url_requests (snd (iteration env w1)) = [thingspeak_url env b]"
      by (simp add: iteration_url_requests a)
    with h have "(urlopen w1 (thingspeak_url env b) = None) =
        (urlopen w2 (thingspeak_url env b) = None)"
      by simp
    then show ?thesis
      using Inr by (cases "urlopen w1 (thingspeak_url env b)";
          cases "urlopen w2 (thingspeak_url env b)")
        (simp_all add: iteration_publish_calls_eq a)
  qed
  have "p1 = p2"
    if "p1 \<in> set (publish_calls (snd (iteration env w1)))"
      and "p2 \<in> set (publish_calls (snd (iteration env w2)))" for p1 p2
    using that iteration_publish_calls [of env w1] iteration_publish_calls [of env w2] a
    by auto
  with u q show ?thesis by blast
qed

text \<open>
  The hypotheses hold for the world where everything succeeds and the world where the broker
  fails: both request the same URL and publish the same call.
\<close>

theorem payload_deterministic_witness:
  "read_retry w_ok = read_retry w_broker_fails \<and>
   url_requests (snd (iteration env0 w_ok)) = [thingspeak_url env0 batch0] \<and>
   url_requests (snd (iteration env0 w_broker_fails)) = [thingspeak_url env0 batch0] \<and>
   (urlopen w_ok (thingspeak_url env0 batch0) = None) =
     (urlopen w_broker_fails (thingspeak_url env0 batch0) = None) \<and>
   publish_calls (snd (iteration env0 w_ok)) = [mqtt_publish env0 batch0] \<and>
   publish_calls (snd (iteration env0 w_broker_fails)) = [mqtt_publish env0 batch0] \<and>
   publish_calls (snd (iteration env0 w_ok)) = publish_calls (snd (iteration env0 w_broker_fails))"
proof -
  have r: "read_retry w_ok = read_retry w_broker_fails"
    by (simp add: w_broker_fails_def)
  have k: "url_requests (snd (iteration env0 w_ok)) = [thingspeak_url env0 batch0]"
    by (simp add: iteration_w_ok)
  have o: "(urlopen w_ok (thingspeak_url env0 batch0) = None) =
     (urlopen w_broker_fails (thingspeak_url env0 batch0) = None)"
    by (simp add: w_broker_fails_def)
  then have "\<forall>u \<in> set (url_requests (snd (iteration env0 w_ok))).
      (urlopen w_ok u = None) = (urlopen w_broker_fails u = None)"
    unfolding k by simp
  with payload_deterministic [OF r, of env0]
  have "publish_calls (snd (iteration env0 w_ok)) =
      publish_calls (snd (iteration env0 w_broker_fails))"
    by blast
  with r o iteration_w_broker_fails show ?thesis
    by (simp add: iteration_w_ok)
qed

text \<open>
  Claim C8 as stated fails: the world where everything succeeds and the world where the
  logging endpoint refuses the connection have the same sensor reads, yet the first publishes
  the six messages and the second publishes nothing.
\<close>

theorem broker_payload_missing_when_log_fails:
  "read_retry w_ok = read_retry w_log_fails \<and>
   publish_calls (snd (iteration env0 w_ok)) = [mqtt_publish env0 batch0] \<and>
   publish_calls (snd (iteration env0 w_log_fails)) = []"
proof -
  have r: "read_retry w_ok = read_retry w_log_fails"
    by (simp add: w_log_fails_def)
  have a: "fst (acquire env0 w_log_fails) = Inr batch0"
    by (simp add: acquire_w_log_fails)
  have u: "urlopen w_log_fails (thingspeak_url env0 batch0) =
      Some (URLError ''[Errno 111] Connection refused'')"
    by (simp add: w_log_fails_def w_ok_def)
  have "publish_calls (snd (iteration env0 w_log_fails)) = []"
    by (simp add: iteration_publish_calls_eq a u)
  with r show ?thesis
    by (simp add: iteration_w_ok)
qed


section \<open>Properties of \<^verbatim>\<open>MprofiAPIConnector.send\<close>\<close>

lemma full_url_send: "full_url send_endpoint = ''https://api.mprofi.pl/1.0/send/''"
  by (simp add: full_url_def url_base_def api_version_def send_endpoint_def)

lemma full_url_sendbulk: "full_url sendbulk_endpoint = ''https://api.mprofi.pl/1.0/sendbulk/''"
  by (simp add: full_url_def url_base_def api_version_def sendbulk_endpoint_def)

lemma transmit_requests:
  "snd (snd (transmit py post c used_endpoint full_payload extract)) =
     [(full_url used_endpoint, full_payload)]"
  by (simp add: transmit_def Let_def split: http_result.splits option.splits sum.splits prod.splits)

lemma transmit_http_error:
  assumes "post (full_url used_endpoint) full_payload = Response code body"
    and "raise_for_status code"
  shows "transmit py post c used_endpoint full_payload extract =
    (Inl MprofiAuthError, c, [(full_url used_endpoint, full_payload)])"
  using assms by (simp add: transmit_def)

lemma transmit_connection_error:
  assumes "post (full_url used_endpoint) full_payload = ConnectionError"
  shows "transmit py post c used_endpoint full_payload extract =
    (Inl MprofiConnectionError, c, [(full_url used_endpoint, full_payload)])"
  using assms by (simp add: transmit_def)

lemma conn1_eq:
  "conn1 = \<lparr>heap = (\<lambda>a. Map.empty)(0 :=
              [PyStr ''recipient'' \<mapsto> PyStr ''111222333'', PyStr ''message'' \<mapsto> PyStr ''Welcome!'']),
            next_addr = 1, payload = [0], response = []\<rparr>"
  by (simp add: conn1_def add_message_def new_connector_def)

lemma conn2_payload: "payload conn2 = [0, 1]"
  by (simp add: conn2_def conn1_eq add_message_def)

text \<open>
  Claim C9. A call of \<^verbatim>\<open>send\<close> with exactly one message in the payload issues one request,
  to the \<^verbatim>\<open>send\<close> endpoint; with more than one message it issues one request, to the
  \<^verbatim>\<open>sendbulk\<close> endpoint; with an empty payload it raises \<^verbatim>\<open>ValueError\<close>, issues no
  request and leaves the connector as it was. When the response to the request has a status
  outside 200 to 299, \<^verbatim>\<open>send\<close> raises (\<^verbatim>\<open>MprofiAuthError\<close>); this last part rests on
  \<open>raise_for_status\<close> as the spec describes it.
\<close>

theorem send_endpoint_by_size:
  "(length (payload c) = 1 \<longrightarrow>
      map fst (snd (snd (send py post c reference))) = [''https://api.mprofi.pl/1.0/send/'']) \<and>
   (1 < length (payload c) \<longrightarrow>
      map fst (snd (snd (send py post c reference))) = [''https://api.mprofi.pl/1.0/sendbulk/'']) \<and>
   (payload c = [] \<longrightarrow> send py post c reference = (Inl ValueError, c, [])) \<and>
   (payload c \<noteq> [] \<and> \<not> (200 \<le> code \<and> code < 300) \<longrightarrow>
      fst (send py (\<lambda>u d. Response code body) c reference) = Inl MprofiAuthError)"
proof (intro conjI impI)
  assume "length (payload c) = 1"
  then show "map fst (snd (snd (send py post c reference))) = [''https://api.mprofi.pl/1.0/send/'']"
    by (simp add: send_def Let_def transmit_requests full_url_send)
next
  assume "1 < length (payload c)"
  then show "map fst (snd (snd (send py post c reference))) =
      [''https://api.mprofi.pl/1.0/sendbulk/'']"
    by (simp add: send_def transmit_requests full_url_sendbulk)
next
  assume "payload c = []"
  then show "send py post c reference = (Inl ValueError, c, [])"
    by (simp add: send_def)
next
  assume a: "payload c \<noteq> [] \<and> \<not> (200 \<le> code \<and> code < 300)"
  then have r: "raise_for_status code"
    by (simp add: raise_for_status_def)
  from a have "length (payload c) = 1 \<or> 1 < length (payload c)"
    by (cases "payload c") auto
  then show "fst (send py (\<lambda>u d. Response code body) c reference) = Inl MprofiAuthError"
    using r by (auto simp add: send_def Let_def transmit_http_error)
qed

text \<open>One message, two messages, no message, and a response with status 403.\<close>

theorem send_endpoint_by_size_witness:
  "length (payload conn1) = 1 \<and>
   map fst (snd (snd (send py0 post_single_ok conn1 None))) = [''https://api.mprofi.pl/1.0/send/''] \<and>
   1 < length (payload conn2) \<and>
   map fst (snd (snd (send py0 post_bulk_ok conn2 None))) = [''https://api.mprofi.pl/1.0/sendbulk/''] \<and>
   payload new_connector = [] \<and>
   send py0 post_single_ok new_connector None = (Inl ValueError, new_connector, []) \<and>
   payload conn1 \<noteq> [] \<and> \<not> (200 \<le> (403::nat) \<and> (403::nat) < 300) \<and>
   fst (send py0 (\<lambda>u d. Response 403 None) conn1 None) = Inl MprofiAuthError"
proof -
  have 1: "length (payload conn1) = 1"
    by (simp add: conn1_eq)
  have 2: "1 < length (payload conn2)"
    by (simp add: conn2_payload)
  have 3: "payload new_connector = []"
    by (simp add: new_connector_def)
  have 4: "payload conn1 \<noteq> [] \<and> \<not> (200 \<le> (403::nat) \<and> (403::nat) < 300)"
    by (simp add: conn1_eq)
  from 1 2 3 4
    send_endpoint_by_size [of conn1 py0 post_single_ok None 403 None]
    send_endpoint_by_size [of conn2 py0 post_bulk_ok None 403 None]
    send_endpoint_by_size [of new_connector py0 post_single_ok None 403 None]
  show ?thesis by blast
qed

text \<open>No call of \<^verbatim>\<open>send\<close> issues a second request: there is no retry.\<close>

lemma send_at_most_one_request: "length (snd (snd (send py post c reference))) \<le> 1"
  by (simp add: send_def Let_def transmit_requests)

text \<open>
  Claim C10 at a concrete call: the connector holds one message, as \<^verbatim>\<open>motiondetect.py\<close>
  builds it, \<^verbatim>\<open>send\<close> is given a reference, and the network cannot be reached. The call
  raises \<^verbatim>\<open>MprofiConnectionError\<close> and the payload still lists the same message, but the
  message has gained the key \<^verbatim>\<open>'reference'\<close>: the payload is not as it was before the call.
\<close>

theorem send_failure_changes_payload:
  "fst (send py post_unreachable conn1 (Some ''2015-02-05'')) = Inl MprofiConnectionError \<and>
   payload (fst (snd (send py post_unreachable conn1 (Some ''2015-02-05'')))) = payload conn1 \<and>
   payload conn1 = [0] \<and>
   heap conn1 0 (PyStr ''reference'') = None \<and>
   heap (fst (snd (send py post_unreachable conn1 (Some ''2015-02-05'')))) 0 (PyStr ''reference'') =
     Some (PyStr ''2015-02-05'')"
  by (simp add: send_def Let_def transmit_connection_error post_unreachable_def conn1_eq)

text \<open>
  Where no reference is given or the payload does not hold exactly one message, a call whose
  exchange fails (the request raises, the status is an error status, or the body cannot be
  decoded) raises and leaves the connector as it was.
\<close>

lemma transmit_failed_exchange:
  assumes "case post (full_url used_endpoint) full_payload of
             Response code (Some v) \<Rightarrow> raise_for_status code | _ \<Rightarrow> True"
  shows "(\<exists>e. fst (transmit py post c used_endpoint full_payload extr) = Inl e) \<and>
         fst (snd (transmit py post c used_endpoint full_payload extr)) = c"
  using assms
  by (auto simp add: transmit_def split: http_result.splits option.splits)

lemma send_failed_exchange_keeps_state:
  assumes "reference = None \<or> length (payload c) \<noteq> 1"
    and "\<And>u d. case post u d of
             Response code (Some v) \<Rightarrow> raise_for_status code | _ \<Rightarrow> True"
  shows "(\<exists>e. fst (send py post c reference) = Inl e) \<and>
         fst (snd (send py post c reference)) = c"
proof (cases "length (payload c) = 1")
  case True
  with assms(1) have n: "reference = None" by simp
  from transmit_failed_exchange [where py = py and c = c and extr = extract_single, OF assms(2)]
  show ?thesis using True n by (simp add: send_def Let_def)
next
  case False
  show ?thesis
  proof (cases "1 < length (payload c)")
    case True
    from transmit_failed_exchange [where py = py and c = c and extr = "extract_bulk py", OF assms(2)]
    show ?thesis using True False by (simp add: send_def)
  next
    case False2: False
    with False show ?thesis by (simp add: send_def)
  qed
qed

text \<open>
  Once the body is decoded the payload is emptied and the response is the former payload,
  whether the call then returns or raises from reading the body.
\<close>

lemma transmit_after_decoding:
  assumes "post (full_url used_endpoint) full_payload = Response code (Some v)"
    and "\<not> raise_for_status code"
  shows "payload (fst (snd (transmit py post c used_endpoint full_payload extract))) = [] \<and>
         response (fst (snd (transmit py post c used_endpoint full_payload extract))) = payload c"
  using assms
  by (auto simp add: transmit_def Let_def split: sum.splits prod.splits option.splits)

lemma transmit_success:
  assumes "fst (transmit py post c used_endpoint full_payload extract) = Inr v"
  shows "payload (fst (snd (transmit py post c used_endpoint full_payload extract))) = [] \<and>
         response (fst (snd (transmit py post c used_endpoint full_payload extract))) = payload c"
  using assms
  by (auto simp add: transmit_def Let_def
      split: http_result.splits option.splits sum.splits prod.splits if_splits)

text \<open>
  A call that returns has emptied the payload and made the response the list of the messages
  that were in the payload.
\<close>

lemma send_success_resets:
  assumes "fst (send py post c reference) = Inr v"
  shows "payload (fst (snd (send py post c reference))) = [] \<and>
         response (fst (snd (send py post c reference))) = payload c"
proof (cases "length (payload c) = 1")
  case True
  show ?thesis
  proof (cases reference)
    case None
    then show ?thesis
      using assms True transmit_success [of py post c send_endpoint]
      by (simp add: send_def Let_def)
  next
    case (Some r)
    then show ?thesis
      using assms True
        transmit_success [of py post
          "c\<lparr>heap := (heap c)(hd (payload c) :=
               (heap c (hd (payload c)))(PyStr ''reference'' \<mapsto> PyStr r))\<rparr>"
          send_endpoint]
      by (simp add: send_def Let_def)
  qed
next
  case False
  then show ?thesis
    using assms transmit_success [of py post c sendbulk_endpoint]
    by (simp add: send_def split: if_splits)
qed

end
